theory Spec2Isabelle
  imports Main
begin

section \<open>Strings\<close>

text \<open>
  A Go string is a sequence of bytes, as a HOL \<open>string\<close> is. \<open>strings.TrimSpace\<close> is
  modelled here in full; \<open>strings.ToLower\<close>, which lower-cases every cased rune of
  Unicode, is taken from the standard library as a parameter (see \<open>libs\<close> below).
\<close>

text \<open>
  \<open>strings.TrimSpace\<close> removes the leading and trailing white space "as defined by
  Unicode". \<open>space_runes\<close> lists the UTF-8 encodings of the code points with the
  White_Space property: U+0009..U+000D, U+0020, U+0085, U+00A0, U+1680, U+2000..U+200A,
  U+2028, U+2029, U+202F, U+205F, U+3000.
\<close>

definition space_runes :: "string list" where
  "space_runes =
     [[CHR 0x09], [CHR 0x0A], [CHR 0x0B], [CHR 0x0C], [CHR 0x0D], [CHR 0x20],
      [CHR 0xC2, CHR 0x85], [CHR 0xC2, CHR 0xA0],
      [CHR 0xE1, CHR 0x9A, CHR 0x80],
      [CHR 0xE2, CHR 0x80, CHR 0x80], [CHR 0xE2, CHR 0x80, CHR 0x81],
      [CHR 0xE2, CHR 0x80, CHR 0x82], [CHR 0xE2, CHR 0x80, CHR 0x83],
      [CHR 0xE2, CHR 0x80, CHR 0x84], [CHR 0xE2, CHR 0x80, CHR 0x85],
      [CHR 0xE2, CHR 0x80, CHR 0x86], [CHR 0xE2, CHR 0x80, CHR 0x87],
      [CHR 0xE2, CHR 0x80, CHR 0x88], [CHR 0xE2, CHR 0x80, CHR 0x89],
      [CHR 0xE2, CHR 0x80, CHR 0x8A],
      [CHR 0xE2, CHR 0x80, CHR 0xA8], [CHR 0xE2, CHR 0x80, CHR 0xA9],
      [CHR 0xE2, CHR 0x80, CHR 0xAF], [CHR 0xE2, CHR 0x81, CHR 0x9F],
      [CHR 0xE3, CHR 0x80, CHR 0x80]]"

text \<open>The number of bytes of the first pattern that starts \<open>s\<close>; 0 when none does.\<close>

fun leading_len :: "string list \<Rightarrow> string \<Rightarrow> nat" where
  "leading_len [] s = 0"
| "leading_len (p # ps) s =
     (if take (length p) s = p then length p else leading_len ps s)"

function trim_leading :: "string list \<Rightarrow> string \<Rightarrow> string" where
  "trim_leading ps s =
     (if leading_len ps s = 0 then s else trim_leading ps (drop (leading_len ps s) s))"
  by pat_completeness auto
termination
proof (relation "measure (\<lambda>(ps, s). length s)")
  show "wf (measure (\<lambda>(ps, s). length s))" by simp
next
  fix ps :: "string list" and s :: string
  assume match: "leading_len ps s \<noteq> 0"
  have "leading_len ps s \<le> length s"
  proof (induction ps)
    case Nil
    show ?case by simp
  next
    case (Cons p ps)
    have "take (length p) s = p \<Longrightarrow> length p \<le> length s"
      by (metis length_take min.cobounded1)
    with Cons show ?case by simp
  qed
  with match show "((ps, drop (leading_len ps s) s), (ps, s)) \<in> measure (\<lambda>(ps, s). length s)"
    by simp
qed

declare trim_leading.simps [simp del]

definition TrimSpace :: "string \<Rightarrow> string" where
  "TrimSpace s =
     rev (trim_leading (map rev space_runes) (rev (trim_leading space_runes s)))"

section \<open>Domain: errors, roles, users\<close>

text \<open>
  The sentinel errors of the domain package; \<open>ErrorString\<close> stands for an error made on
  the spot by \<open>errors.New\<close> and for the errors of the libraries and of the database driver.
\<close>

datatype error =
    ErrInvalidCredentials
  | ErrEmailExists
  | ErrTokenInvalid
  | ErrUserNotFound
  | ErrInvalidRole
  | ErrPasswordMismatch
  | ErrPasswordUnchanged
  | ErrorString string

text \<open>\<open>UserRole\<close> is a string type in the source; its zero value is the empty string.\<close>

type_synonym UserRole = string

definition RoleUser :: UserRole where
  "RoleUser = ''user''"

definition RoleAdmin :: UserRole where
  "RoleAdmin = ''admin''"

text \<open>Instants are counted in nanoseconds.\<close>

record User =
  ID :: string
  Email :: string
  Name :: string
  Role :: UserRole
  PasswordHash :: string
  CreatedAt :: int
  UpdatedAt :: int

record Credentials =
  cred_Email :: string
  cred_Password :: string

section \<open>The users table and its repository\<close>

text \<open>
  The table \<open>users\<close> holds its rows in insertion order; \<open>id\<close> is its primary key and
  \<open>email\<close> is unique. \<open>unavailable\<close> says that the connection pool fails every statement.
\<close>

record database =
  rows :: "User list"
  unavailable :: bool

datatype pg_error = ErrNoRows | UniqueViolation | ConnFailure

definition pg_insert :: "database \<Rightarrow> User \<Rightarrow> pg_error + database" where
  "pg_insert db u =
     (if unavailable db then Inl ConnFailure
      else if list_ex (\<lambda>r. ID r = ID u \<or> Email r = Email u) (rows db) then Inl UniqueViolation
      else Inr (db\<lparr>rows := rows db @ [u]\<rparr>))"

definition pg_query_row :: "database \<Rightarrow> (User \<Rightarrow> bool) \<Rightarrow> pg_error + User" where
  "pg_query_row db P =
     (if unavailable db then Inl ConnFailure
      else case find P (rows db) of None \<Rightarrow> Inl ErrNoRows | Some u \<Rightarrow> Inr u)"

text \<open>The number of rows an \<open>UPDATE\<close> or \<open>DELETE\<close> on one id touches.\<close>

definition rows_affected :: "database \<Rightarrow> string \<Rightarrow> nat" where
  "rows_affected db uid = length (filter (\<lambda>r. ID r = uid) (rows db))"

definition pg_update :: "database \<Rightarrow> User \<Rightarrow> pg_error + (nat \<times> database)" where
  "pg_update db u =
     (if unavailable db then Inl ConnFailure
      else if rows_affected db (ID u) = 0 then Inr (0, db)
      else if list_ex (\<lambda>r. ID r \<noteq> ID u \<and> Email r = Email u) (rows db) then Inl UniqueViolation
      else Inr (rows_affected db (ID u),
             db\<lparr>rows := map (\<lambda>r. if ID r = ID u
                                  then r\<lparr>Email := Email u, Name := Name u, Role := Role u,
                                         UpdatedAt := UpdatedAt u\<rparr>
                                  else r) (rows db)\<rparr>))"

definition pg_delete :: "database \<Rightarrow> string \<Rightarrow> pg_error + (nat \<times> database)" where
  "pg_delete db uid =
     (if unavailable db then Inl ConnFailure
      else Inr (rows_affected db uid, db\<lparr>rows := filter (\<lambda>r. ID r \<noteq> uid) (rows db)\<rparr>))"

text \<open>
  Modelled from the spec: \<open>isUniqueViolation\<close> is called by the repository and defined
  in a file that is not part of the sources at hand; it recognises the uniqueness
  violation that the Store surfaces.
\<close>

definition isUniqueViolation :: "pg_error \<Rightarrow> bool" where
  "isUniqueViolation err = (err = UniqueViolation)"

text \<open>A driver error that the repository hands on as it is.\<close>

definition driver_error :: "pg_error \<Rightarrow> error" where
  "driver_error err =
     (case err of
        ErrNoRows \<Rightarrow> ErrorString ''no rows in result set''
      | UniqueViolation \<Rightarrow> ErrorString ''duplicate key value violates unique constraint''
      | ConnFailure \<Rightarrow> ErrorString ''failed to connect'')"

definition Create :: "database \<Rightarrow> User \<Rightarrow> error + database" where
  "Create db user =
     (case pg_insert db user of
        Inl err \<Rightarrow> if isUniqueViolation err then Inl ErrEmailExists else Inl (driver_error err)
      | Inr db' \<Rightarrow> Inr db')"

definition GetByEmail :: "database \<Rightarrow> string \<Rightarrow> error + User" where
  "GetByEmail db email =
     (case pg_query_row db (\<lambda>r. Email r = email) of
        Inl err \<Rightarrow> if err = ErrNoRows then Inl ErrUserNotFound else Inl (driver_error err)
      | Inr u \<Rightarrow> Inr u)"

definition GetByID :: "database \<Rightarrow> string \<Rightarrow> error + User" where
  "GetByID db uid =
     (case pg_query_row db (\<lambda>r. ID r = uid) of
        Inl err \<Rightarrow> if err = ErrNoRows then Inl ErrUserNotFound else Inl (driver_error err)
      | Inr u \<Rightarrow> Inr u)"

text \<open>
  \<open>ORDER BY created_at DESC\<close>; the order of rows created at the same instant is not
  fixed by the statement, the model keeps them in table order.
\<close>

definition List_users :: "database \<Rightarrow> UserRole \<Rightarrow> error + User list" where
  "List_users db role =
     (if unavailable db then Inl (driver_error ConnFailure)
      else Inr (sort_key (\<lambda>u. - CreatedAt u)
                  (if role \<noteq> [] then filter (\<lambda>r. Role r = role) (rows db) else rows db)))"

definition Update :: "database \<Rightarrow> User \<Rightarrow> error + database" where
  "Update db user =
     (case pg_update db user of
        Inl err \<Rightarrow> if isUniqueViolation err then Inl ErrEmailExists else Inl (driver_error err)
      | Inr (n, db') \<Rightarrow> if n = 0 then Inl ErrUserNotFound else Inr db')"

definition Delete :: "database \<Rightarrow> string \<Rightarrow> error + database" where
  "Delete db uid =
     (case pg_delete db uid of
        Inl err \<Rightarrow> Inl (driver_error err)
      | Inr (n, db') \<Rightarrow> if n = 0 then Inl ErrUserNotFound else Inr db')"

section \<open>The libraries the services call\<close>

text \<open>
  The standard library's \<open>strings.ToLower\<close>, \<open>golang.org/x/crypto/bcrypt\<close> and
  \<open>github.com/golang-jwt/jwt/v5\<close> are not part of the repository; the model takes
  their primitives as parameters.
  \<^item> \<open>ToLower\<close>: \<open>strings.ToLower\<close>;
  \<^item> \<open>bcrypt_GenerateFromPassword\<close>: the digest, or the library's error (it refuses
    a password of more than 72 bytes);
  \<^item> \<open>bcrypt_CompareHashAndPassword digest password\<close>: whether the error is nil;
  \<^item> \<open>jwt_parse\<close>: the parser's reading of a compact token (the three segments, the
    header's method, the claims, the signature), \<open>None\<close> when the token is malformed;
  \<^item> \<open>jwt_signing_string\<close>: the encoded header and claims that get signed;
  \<^item> \<open>jwt_sign method signing_string key\<close> and
    \<open>jwt_verify method signing_string signature key\<close>: the signing method's two halves.
\<close>

datatype SigningMethod = HS256 | HS384 | HS512 | RS256 | ES256 | PS256 | EdDSA | SigningMethodNone

text \<open>The type test \<open>t.Method.(*jwt.SigningMethodHMAC)\<close>.\<close>

definition is_SigningMethodHMAC :: "SigningMethod \<Rightarrow> bool" where
  "is_SigningMethodHMAC m = (m = HS256 \<or> m = HS384 \<or> m = HS512)"

record Claims =
  UserID :: string
  Issuer :: string
  IssuedAt :: "int option"
  ExpiresAt :: "int option"
  NotBefore :: "int option"

record Token =
  Method :: SigningMethod
  TokenClaims :: Claims
  SigningString :: string
  Signature :: string
  Valid :: bool

record libs =
  ToLower :: "string \<Rightarrow> string"
  bcrypt_GenerateFromPassword :: "string \<Rightarrow> error + string"
  bcrypt_CompareHashAndPassword :: "string \<Rightarrow> string \<Rightarrow> bool"
  jwt_parse :: "string \<Rightarrow> Token option"
  jwt_signing_string :: "SigningMethod \<Rightarrow> Claims \<Rightarrow> string"
  jwt_sign :: "SigningMethod \<Rightarrow> string \<Rightarrow> string \<Rightarrow> string option"
  jwt_verify :: "SigningMethod \<Rightarrow> string \<Rightarrow> string \<Rightarrow> string \<Rightarrow> bool"

text \<open>\<open>jwt.NewNumericDate\<close> truncates an instant to the second.\<close>

definition NewNumericDate :: "int \<Rightarrow> int" where
  "NewNumericDate t = t - t mod 1000000000"

text \<open>
  The validator of the registered claims, with the parser's default options: a token
  that carries \<open>exp\<close> is good strictly before it, one that carries \<open>nbf\<close> from it on;
  the issuer and \<open>iat\<close> are not looked at.
\<close>

definition validate_claims :: "int \<Rightarrow> Claims \<Rightarrow> error option" where
  "validate_claims now c =
     (if (case ExpiresAt c of None \<Rightarrow> False | Some exp \<Rightarrow> \<not> now < exp)
        then Some (ErrorString ''token is expired'')
      else if (case NotBefore c of None \<Rightarrow> False | Some nbf \<Rightarrow> now < nbf)
        then Some (ErrorString ''token is not valid yet'')
      else None)"

text \<open>
  \<open>jwt.ParseWithClaims\<close>: parse, ask the key function for the key, verify the signature
  with the token's own method, validate the claims.
\<close>

definition ParseWithClaims ::
  "libs \<Rightarrow> int \<Rightarrow> string \<Rightarrow> (Token \<Rightarrow> error + string) \<Rightarrow> error + Token" where
  "ParseWithClaims L now tokenString keyFunc =
     (case jwt_parse L tokenString of
        None \<Rightarrow> Inl (ErrorString ''token is malformed'')
      | Some t \<Rightarrow>
          (case keyFunc (t\<lparr>Valid := False\<rparr>) of
             Inl err \<Rightarrow> Inl err
           | Inr key \<Rightarrow>
               if \<not> jwt_verify L (Method t) (SigningString t) (Signature t) key
               then Inl (ErrorString ''token signature is invalid'')
               else (case validate_claims now (TokenClaims t) of
                       Some err \<Rightarrow> Inl err
                     | None \<Rightarrow> Inr (t\<lparr>Valid := True\<rparr>))))"

section \<open>The token manager\<close>

record JWTManager =
  secret :: string
  expiration :: int
  issuer :: string

text \<open>The claims \<open>Generate\<close> builds at the instant \<open>now\<close>.\<close>

definition Generate_claims :: "JWTManager \<Rightarrow> int \<Rightarrow> string \<Rightarrow> Claims" where
  "Generate_claims m now userID =
     \<lparr>UserID = userID, Issuer = issuer m,
      IssuedAt = Some (NewNumericDate now),
      ExpiresAt = Some (NewNumericDate (now + expiration m)),
      NotBefore = None\<rparr>"

definition Generate :: "libs \<Rightarrow> JWTManager \<Rightarrow> int \<Rightarrow> string \<Rightarrow> error + string" where
  "Generate L m now userID =
     (let sstr = jwt_signing_string L HS256 (Generate_claims m now userID)
      in case jwt_sign L HS256 sstr (secret m) of
           None \<Rightarrow> Inl (ErrorString ''signing failed'')
         | Some sg \<Rightarrow> Inr (sstr @ ''.'' @ sg))"

definition Validate :: "libs \<Rightarrow> JWTManager \<Rightarrow> int \<Rightarrow> string \<Rightarrow> error + string" where
  "Validate L m now tokenString =
     (case ParseWithClaims L now tokenString
             (\<lambda>t. if \<not> is_SigningMethodHMAC (Method t)
                  then Inl (ErrorString ''unexpected signing method'')
                  else Inr (secret m)) of
        Inl err \<Rightarrow> Inl err
      | Inr token \<Rightarrow>
          if \<not> Valid token then Inl (ErrorString ''invalid token claims'')
          else Inr (UserID (TokenClaims token)))"

section \<open>The authentication service\<close>

text \<open>
  \<open>sanitizeUser\<close> on a user that is not nil: the value of the copy it returns. The
  pointers are modelled by \<open>sanitizeUser_ptr\<close> below.
\<close>

definition sanitizeUser :: "User \<Rightarrow> User" where
  "sanitizeUser u = u\<lparr>PasswordHash := []\<rparr>"

text \<open>
  \<open>Register\<close>. \<open>now\<close> is the reading of the service's clock and \<open>newID\<close> the string
  \<open>uuid.NewString()\<close> returns. Requests run concurrently: \<open>others\<close> is what the
  other requests commit between the look-up and the insert (the identity when nothing
  happens in between). The user is built without a \<open>Role\<close>: the field keeps the zero
  value of its type.
\<close>

definition Register ::
  "libs \<Rightarrow> int \<Rightarrow> string \<Rightarrow> (database \<Rightarrow> database) \<Rightarrow> database \<Rightarrow>
   string \<Rightarrow> string \<Rightarrow> string \<Rightarrow> (error + User) \<times> database" where
  "Register L now newID others db email0 password0 name =
     (let email = TrimSpace (ToLower L email0);
          password = TrimSpace password0
      in if email = [] then (Inl (ErrorString ''email is required''), db)
         else if password = [] then (Inl (ErrorString ''password is required''), db)
         else (case GetByEmail db email of
                 Inr found \<Rightarrow> (Inl ErrEmailExists, db)
               | Inl err \<Rightarrow>
                   if err \<noteq> ErrUserNotFound then (Inl err, db)
                   else (case bcrypt_GenerateFromPassword L password of
                           Inl err \<Rightarrow> (Inl err, others db)
                         | Inr hashed \<Rightarrow>
                             (let user = \<lparr>ID = newID, Email = email, Name = TrimSpace name,
                                          Role = [], PasswordHash = hashed,
                                          CreatedAt = now, UpdatedAt = now\<rparr>
                              in case Create (others db) user of
                                   Inl err \<Rightarrow> (Inl err, others db)
                                 | Inr db' \<Rightarrow> (Inr (sanitizeUser user), db')))))"

definition Login ::
  "libs \<Rightarrow> JWTManager \<Rightarrow> int \<Rightarrow> database \<Rightarrow> Credentials \<Rightarrow>
   (error + string \<times> User) \<times> database" where
  "Login L m now db creds =
     (let email = TrimSpace (ToLower L (cred_Email creds));
          password = TrimSpace (cred_Password creds)
      in if email = [] \<or> password = [] then (Inl ErrInvalidCredentials, db)
         else (case GetByEmail db email of
                 Inl err \<Rightarrow>
                   if err = ErrUserNotFound then (Inl ErrInvalidCredentials, db)
                   else (Inl err, db)
               | Inr user \<Rightarrow>
                   if \<not> bcrypt_CompareHashAndPassword L (PasswordHash user) password
                   then (Inl ErrInvalidCredentials, db)
                   else (case Generate L m now (ID user) of
                           Inl err \<Rightarrow> (Inl err, db)
                         | Inr token \<Rightarrow> (Inr (token, sanitizeUser user), db))))"

definition VerifyToken ::
  "libs \<Rightarrow> JWTManager \<Rightarrow> int \<Rightarrow> database \<Rightarrow> string \<Rightarrow> (error + User) \<times> database" where
  "VerifyToken L m now db token =
     (case Validate L m now token of
        Inl err \<Rightarrow> (Inl ErrTokenInvalid, db)
      | Inr userID \<Rightarrow>
          (case GetByID db userID of
             Inl err \<Rightarrow>
               if err = ErrUserNotFound then (Inl ErrTokenInvalid, db)
               else (Inl err, db)
           | Inr user \<Rightarrow> (Inr (sanitizeUser user), db)))"

text \<open>
  \<open>sanitizeUser\<close> as the source has it, on pointers. The heap is the list of the
  \<open>User\<close> objects allocated so far, a pointer is an index into it and \<open>None\<close> is nil;
  \<open>copy := *u\<close> allocates.
\<close>

type_synonym heap = "User list"

definition sanitizeUser_ptr :: "heap \<Rightarrow> nat option \<Rightarrow> heap \<times> nat option" where
  "sanitizeUser_ptr h u =
     (case u of
        None \<Rightarrow> (h, None)
      | Some a \<Rightarrow> (h @ [(h ! a)\<lparr>PasswordHash := []\<rparr>], Some (length h)))"

section \<open>The user administration service\<close>

record CreateInput =
  ci_Email :: string
  ci_Name :: string
  ci_Password :: string
  ci_Role :: string

record UpdateInput =
  ui_Email :: "string option"
  ui_Name :: "string option"
  ui_Role :: "string option"

definition ensureRole :: "libs \<Rightarrow> string \<Rightarrow> bool \<Rightarrow> error + UserRole" where
  "ensureRole L raw defaultToUser =
     (let role = TrimSpace (ToLower L raw)
      in if role = [] then (if defaultToUser then Inr RoleUser else Inr [])
         else if role = RoleUser \<or> role = RoleAdmin then Inr role
         else Inl ErrInvalidRole)"

definition sanitizeUsers :: "User list \<Rightarrow> User list" where
  "sanitizeUsers items = map sanitizeUser items"

definition user_List :: "libs \<Rightarrow> database \<Rightarrow> string \<Rightarrow> (error + User list) \<times> database" where
  "user_List L db filter_Role =
     (let trimmed = TrimSpace (ToLower L filter_Role)
      in case (if trimmed \<noteq> [] then ensureRole L trimmed False else Inr []) of
           Inl err \<Rightarrow> (Inl err, db)
         | Inr role \<Rightarrow>
             (case List_users db role of
                Inl err \<Rightarrow> (Inl err, db)
              | Inr users \<Rightarrow> (Inr (sanitizeUsers users), db)))"

definition user_Get :: "database \<Rightarrow> string \<Rightarrow> (error + User) \<times> database" where
  "user_Get db id0 =
     (let uid = TrimSpace id0
      in if uid = [] then (Inl (ErrorString ''user id is required''), db)
         else (case GetByID db uid of
                 Inl err \<Rightarrow> (Inl err, db)
               | Inr user \<Rightarrow> (Inr (sanitizeUser user), db)))"

definition user_Create ::
  "libs \<Rightarrow> int \<Rightarrow> string \<Rightarrow> database \<Rightarrow> CreateInput \<Rightarrow> (error + User) \<times> database" where
  "user_Create L now newID db input =
     (let email = TrimSpace (ToLower L (ci_Email input));
          name = TrimSpace (ci_Name input);
          password = TrimSpace (ci_Password input)
      in if email = [] then (Inl (ErrorString ''email is required''), db)
         else if password = [] then (Inl (ErrorString ''password is required''), db)
         else (case ensureRole L (ci_Role input) True of
                 Inl err \<Rightarrow> (Inl err, db)
               | Inr role \<Rightarrow>
                   (case GetByEmail db email of
                      Inr found \<Rightarrow> (Inl ErrEmailExists, db)
                    | Inl err \<Rightarrow>
                        if err \<noteq> ErrUserNotFound then (Inl err, db)
                        else (case bcrypt_GenerateFromPassword L password of
                                Inl err \<Rightarrow> (Inl err, db)
                              | Inr hashed \<Rightarrow>
                                  (let user = \<lparr>ID = newID, Email = email, Name = name,
                                               Role = role, PasswordHash = hashed,
                                               CreatedAt = now, UpdatedAt = now\<rparr>
                                   in case Create db user of
                                        Inl err \<Rightarrow> (Inl err, db)
                                      | Inr db' \<Rightarrow> (Inr (sanitizeUser user), db'))))))"

definition user_Update ::
  "libs \<Rightarrow> int \<Rightarrow> database \<Rightarrow> string \<Rightarrow> UpdateInput \<Rightarrow> (error + User) \<times> database" where
  "user_Update L now db id0 input =
     (let uid = TrimSpace id0
      in if uid = [] then (Inl (ErrorString ''user id is required''), db)
         else (case GetByID db uid of
                 Inl err \<Rightarrow> (Inl err, db)
               | Inr user \<Rightarrow>
                   (case (case ui_Email input of
                            None \<Rightarrow> Inr user
                          | Some e \<Rightarrow>
                              if TrimSpace (ToLower L e) = []
                              then Inl (ErrorString ''email is required'')
                              else Inr (user\<lparr>Email := TrimSpace (ToLower L e)\<rparr>)) of
                      Inl err \<Rightarrow> (Inl err, db)
                    | Inr user1 \<Rightarrow>
                        (let user2 = (case ui_Name input of
                                        None \<Rightarrow> user1
                                      | Some n \<Rightarrow> user1\<lparr>Name := TrimSpace n\<rparr>)
                         in case (case ui_Role input of
                                    None \<Rightarrow> Inr user2
                                  | Some r \<Rightarrow>
                                      (case ensureRole L r True of
                                         Inl err \<Rightarrow> Inl err
                                       | Inr role \<Rightarrow> Inr (user2\<lparr>Role := role\<rparr>))) of
                              Inl err \<Rightarrow> (Inl err, db)
                            | Inr user3 \<Rightarrow>
                                (case Update db (user3\<lparr>UpdatedAt := now\<rparr>) of
                                   Inl err \<Rightarrow> (Inl err, db)
                                 | Inr db' \<Rightarrow>
                                     (Inr (sanitizeUser (user3\<lparr>UpdatedAt := now\<rparr>)), db'))))))"

definition user_Delete :: "database \<Rightarrow> string \<Rightarrow> (error + unit) \<times> database" where
  "user_Delete db id0 =
     (let uid = TrimSpace id0
      in if uid = [] then (Inl (ErrorString ''user id is required''), db)
         else (case Delete db uid of
                 Inl err \<Rightarrow> (Inl err, db)
               | Inr db' \<Rightarrow> (Inr (), db')))"

section \<open>The HTTP layer\<close>

datatype http_method = GET | POST | PUT | PATCH | DELETE | OtherMethod string


datatype payload =
    ErrorResponse string
  | UserEnvelope User
  | UserObject User
  | NoPayload

record response =
  status :: nat
  Allow :: string
  body :: payload


definition writeJSON :: "nat \<Rightarrow> payload \<Rightarrow> response" where
  "writeJSON code p = \<lparr>status = code, Allow = [], body = p\<rparr>"

definition writeError :: "nat \<Rightarrow> string \<Rightarrow> response" where
  "writeError code message = writeJSON code (ErrorResponse message)"


definition extractBearerToken :: "libs \<Rightarrow> string \<Rightarrow> string" where
  "extractBearerToken L header =
     (if header = [] then []
      else if take 7 (ToLower L header) \<noteq> ''bearer '' then []
      else TrimSpace (drop 7 header))"

text \<open>
  The middleware, with the calls it makes written down: the second component lists, in
  order, the calls to \<open>VerifyToken\<close> and to the handler it wraps.
\<close>

datatype event = Called_VerifyToken string | Called_next User

definition authMiddleware ::
  "libs \<Rightarrow> JWTManager \<Rightarrow> int \<Rightarrow> (User \<Rightarrow> database \<Rightarrow> response \<times> database) \<Rightarrow>
   string \<Rightarrow> database \<Rightarrow> (response \<times> database) \<times> event list" where
  "authMiddleware L m now next authorization db =
     (let token = extractBearerToken L authorization
      in if token = [] then ((writeError 401 ''authorization token required'', db), [])
         else (case VerifyToken L m now db token of
                 (Inl err, db') \<Rightarrow>
                   ((writeError 401 ''invalid or expired token'', db'),
                    [Called_VerifyToken token])
               | (Inr user, db') \<Rightarrow>
                   (next user db', [Called_VerifyToken token, Called_next user])))"




section \<open>What the proofs assume of the libraries\<close>

text \<open>
  The round trip of the JWT library at the claims \<open>c\<close> and the key \<open>key\<close>: signing
  with HS256 succeeds, the signature verifies under the same key, and the parser reads
  the compact token back as the method, the claims, the signing string and the
  signature it was made of.
\<close>

definition library_roundtrip :: "libs \<Rightarrow> string \<Rightarrow> Claims \<Rightarrow> bool" where
  "library_roundtrip L key c =
     (case jwt_sign L HS256 (jwt_signing_string L HS256 c) key of
        None \<Rightarrow> False
      | Some sg \<Rightarrow>
          jwt_verify L HS256 (jwt_signing_string L HS256 c) sg key
          \<and> (case jwt_parse L (jwt_signing_string L HS256 c @ ''.'' @ sg) of
                None \<Rightarrow> False
              | Some t \<Rightarrow> Method t = HS256 \<and> TokenClaims t = c
                          \<and> SigningString t = jwt_signing_string L HS256 c
                          \<and> Signature t = sg))"

section \<open>A small deployment to run the definitions on\<close>

text \<open>
  Stand-ins for the libraries. \<open>demo_ToLower\<close> lower-cases the ASCII letters, the
  capitals of the Latin-1 Supplement (U+00C0..U+00DE but U+00D7, two bytes each in
  UTF-8) and U+0130, which \<open>strings.ToLower\<close> maps to \<open>i\<close>; on strings of other
  runes it is not the library's function. The digest prefixes the password and
  refuses more than 72 bytes, as bcrypt does; the MAC writes its inputs down; the
  parser knows three tokens (a good one, one with a forged signature, one that names
  RS256).
\<close>

definition demo_claims :: Claims where
  "demo_claims = \<lparr>UserID = ''u-1'', Issuer = ''backoffice'', IssuedAt = Some 5000000000,
                   ExpiresAt = Some 65000000000, NotBefore = None\<rparr>"

definition demo_mac :: "string \<Rightarrow> string \<Rightarrow> string" where
  "demo_mac sstr key = ''mac:'' @ key @ '':'' @ sstr"

definition ascii_lower :: "char \<Rightarrow> char" where
  "ascii_lower c =
     (if 65 \<le> (of_char c :: nat) \<and> (of_char c :: nat) \<le> 90
      then char_of ((of_char c :: nat) + 32) else c)"

fun demo_ToLower :: "string \<Rightarrow> string" where
  "demo_ToLower [] = []"
| "demo_ToLower [c] = [ascii_lower c]"
| "demo_ToLower (c # d # cs) =
     (if c = CHR 0xC4 \<and> d = CHR 0xB0 then CHR ''i'' # demo_ToLower cs
      else if c = CHR 0xC3 \<and> 128 \<le> (of_char d :: nat) \<and> (of_char d :: nat) \<le> 158
              \<and> d \<noteq> CHR 0x97
      then c # char_of ((of_char d :: nat) + 32) # demo_ToLower cs
      else ascii_lower c # demo_ToLower (d # cs))"

definition demo_libs :: libs where
  "demo_libs =
     \<lparr>ToLower = demo_ToLower,
      bcrypt_GenerateFromPassword =
        (\<lambda>p. if 72 < length p
             then Inl (ErrorString ''bcrypt: password length exceeds 72 bytes'')
             else Inr (''$2a$'' @ p)),
      bcrypt_CompareHashAndPassword = (\<lambda>h p. h = ''$2a$'' @ p),
      jwt_parse = (\<lambda>s.
         if s = ''hs256.u-1.mac:k3y:hs256.u-1''
         then Some \<lparr>Method = HS256, TokenClaims = demo_claims, SigningString = ''hs256.u-1'',
                    Signature = ''mac:k3y:hs256.u-1'', Valid = False\<rparr>
         else if s = ''hs256.u-1.forged''
         then Some \<lparr>Method = HS256, TokenClaims = demo_claims, SigningString = ''hs256.u-1'',
                    Signature = ''forged'', Valid = False\<rparr>
         else if s = ''rs256.u-1.mac:k3y:rs256.u-1''
         then Some \<lparr>Method = RS256, TokenClaims = demo_claims, SigningString = ''rs256.u-1'',
                    Signature = ''mac:k3y:rs256.u-1'', Valid = False\<rparr>
         else None),
      jwt_signing_string = (\<lambda>a c. (if a = HS256 then ''hs256.'' else ''rs256.'') @ UserID c),
      jwt_sign = (\<lambda>a sstr key. Some (demo_mac sstr key)),
      jwt_verify = (\<lambda>a sstr sg key. sg = demo_mac sstr key)\<rparr>"

definition demo_manager :: JWTManager where
  "demo_manager = \<lparr>secret = ''k3y'', expiration = 60000000000, issuer = ''backoffice''\<rparr>"

definition demo_user :: User where
  "demo_user = \<lparr>ID = ''u-1'', Email = ''a@example.com'', Name = ''Ann'', Role = [],
                 PasswordHash = ''$2a$secret1'', CreatedAt = 1000000000,
                 UpdatedAt = 1000000000\<rparr>"

definition demo_admin :: User where
  "demo_admin = \<lparr>ID = ''u-0'', Email = ''root@example.com'', Name = ''Root'',
                  Role = ''admin'', PasswordHash = ''$2a$t0psecret'', CreatedAt = 500000000,
                  UpdatedAt = 500000000\<rparr>"

text \<open>An account whose email starts with U+00E9, the lower-case of U+00C9.\<close>

definition demo_eve :: User where
  "demo_eve = \<lparr>ID = ''u-3'', Email = [CHR 0xC3, CHR 0xA9] @ ''@x.com'', Name = ''Eve'',
                Role = ''user'', PasswordHash = ''$2a$pass3'', CreatedAt = 2000000000,
                UpdatedAt = 2000000000\<rparr>"

definition demo_db0 :: database where
  "demo_db0 = \<lparr>rows = [demo_admin], unavailable = False\<rparr>"

definition demo_db1 :: database where
  "demo_db1 = \<lparr>rows = [demo_admin, demo_user], unavailable = False\<rparr>"

definition demo_db2 :: database where
  "demo_db2 = \<lparr>rows = [demo_admin, demo_eve], unavailable = False\<rparr>"

section \<open>Facts about the repository and the token manager\<close>

lemma find_append_fresh:
  "\<not> list_ex P xs \<Longrightarrow> P x \<Longrightarrow> find P (xs @ [x]) = Some x"
  by (induction xs) auto

lemma Create_appends:
  assumes "\<not> unavailable db"
    and "\<not> list_ex (\<lambda>r. ID r = ID u \<or> Email r = Email u) (rows db)"
  shows "Create db u = Inr (db\<lparr>rows := rows db @ [u]\<rparr>)"
  using assms by (simp add: Create_def pg_insert_def)

lemma GetByEmail_after_insert:
  assumes "\<not> unavailable db"
    and "\<not> list_ex (\<lambda>r. ID r = ID u \<or> Email r = Email u) (rows db)"
  shows "GetByEmail (db\<lparr>rows := rows db @ [u]\<rparr>) (Email u) = Inr u"
proof -
  from assms(2) have "\<not> list_ex (\<lambda>r. Email r = Email u) (rows db)"
    by (auto simp: list_ex_iff)
  then have "find (\<lambda>r. Email r = Email u) (rows db @ [u]) = Some u"
    by (rule find_append_fresh) simp
  with assms(1) show ?thesis
    by (simp add: GetByEmail_def pg_query_row_def)
qed

lemma GetByID_after_insert:
  assumes "\<not> unavailable db"
    and "\<not> list_ex (\<lambda>r. ID r = ID u \<or> Email r = Email u) (rows db)"
  shows "GetByID (db\<lparr>rows := rows db @ [u]\<rparr>) (ID u) = Inr u"
proof -
  from assms(2) have "\<not> list_ex (\<lambda>r. ID r = ID u) (rows db)"
    by (auto simp: list_ex_iff)
  then have "find (\<lambda>r. ID r = ID u) (rows db @ [u]) = Some u"
    by (rule find_append_fresh) simp
  with assms(1) show ?thesis
    by (simp add: GetByID_def pg_query_row_def)
qed

lemma Generate_Validate:
  assumes lib: "library_roundtrip L (secret m) (Generate_claims m t uid)"
    and live: "t' < NewNumericDate (t + expiration m)"
  shows "\<exists>tok. Generate L m t uid = Inr tok \<and> Validate L m t' tok = Inr uid"
proof -
  let ?c = "Generate_claims m t uid"
  let ?s = "jwt_signing_string L HS256 ?c"
  from lib obtain sg where sg: "jwt_sign L HS256 ?s (secret m) = Some sg"
    by (auto simp: library_roundtrip_def split: option.splits)
  with lib have ver: "jwt_verify L HS256 ?s sg (secret m)"
    by (simp add: library_roundtrip_def)
  from lib sg obtain tk where tk: "jwt_parse L (?s @ ''.'' @ sg) = Some tk"
    and fields: "Method tk = HS256" "TokenClaims tk = ?c" "SigningString tk = ?s"
      "Signature tk = sg"
    by (auto simp: library_roundtrip_def split: option.splits)
  have gen: "Generate L m t uid = Inr (?s @ ''.'' @ sg)"
    using sg by (simp add: Generate_def)
  have ok: "validate_claims t' ?c = None"
    using live by (simp add: validate_claims_def Generate_claims_def)
  have "Validate L m t' (?s @ ''.'' @ sg) = Inr uid"
    using tk fields ver ok
    by (simp add: Validate_def ParseWithClaims_def is_SigningMethodHMAC_def
        Generate_claims_def)
  with gen show ?thesis by blast
qed

lemma find_filter_none: "find P (filter (\<lambda>r. \<not> P r) xs) = None"
  by (induction xs) auto

lemma GetByID_after_Delete:
  assumes "Delete db uid = Inr db'"
  shows "GetByID db' uid = Inl ErrUserNotFound"
proof -
  from assms have up: "\<not> unavailable db"
    and db': "db' = db\<lparr>rows := filter (\<lambda>r. ID r \<noteq> uid) (rows db)\<rparr>"
    by (auto simp: Delete_def pg_delete_def split: if_splits)
  have "find (\<lambda>r. ID r = uid) (filter (\<lambda>r. \<not> ID r = uid) (rows db)) = None"
    by (rule find_filter_none)
  with up db' show ?thesis
    by (simp add: GetByID_def pg_query_row_def)
qed

lemma Register_sanitized:
  "Register L now newID others db email password name = (Inr u, db') \<Longrightarrow> PasswordHash u = []"
  by (auto simp: Register_def Let_def sanitizeUser_def split: if_splits sum.splits option.splits)

lemma Login_sanitized:
  "Login L m now db creds = (Inr (tok, u), db') \<Longrightarrow> PasswordHash u = []"
  by (auto simp: Login_def Let_def sanitizeUser_def split: if_splits sum.splits)

lemma VerifyToken_sanitized:
  "VerifyToken L m now db tok = (Inr u, db') \<Longrightarrow> PasswordHash u = []"
  by (auto simp: VerifyToken_def sanitizeUser_def split: if_splits sum.splits)

lemma user_List_sanitized:
  "user_List L db role = (Inr us, db') \<Longrightarrow> list_all (\<lambda>u. PasswordHash u = []) us"
  by (auto simp: user_List_def Let_def sanitizeUsers_def sanitizeUser_def list_all_iff
      split: if_splits sum.splits)

lemma user_Get_sanitized:
  "user_Get db uid = (Inr u, db') \<Longrightarrow> PasswordHash u = []"
  by (auto simp: user_Get_def Let_def sanitizeUser_def split: if_splits sum.splits)

lemma user_Create_sanitized:
  "user_Create L now newID db input = (Inr u, db') \<Longrightarrow> PasswordHash u = []"
  by (auto simp: user_Create_def Let_def sanitizeUser_def
      split: if_splits sum.splits option.splits)

lemma user_Update_sanitized:
  "user_Update L now db uid input = (Inr u, db') \<Longrightarrow> PasswordHash u = []"
  by (auto simp: user_Update_def Let_def sanitizeUser_def split: if_splits sum.splits)

text \<open>
  What a successful \<open>Register\<close> returns and stores: the identifier and the instant it
  was given, the empty role, and a row whose identifier and email were not in the table.
\<close>

lemma Register_success_shape:
  assumes "Register L now newID others db email password name = (Inr u, db')"
  shows "\<exists>hashed. bcrypt_GenerateFromPassword L (TrimSpace password) = Inr hashed
           \<and> u = \<lparr>ID = newID, Email = TrimSpace (ToLower L email), Name = TrimSpace name,
                   Role = [], PasswordHash = [], CreatedAt = now, UpdatedAt = now\<rparr>
           \<and> db' = (others db)\<lparr>rows := rows (others db) @ [u\<lparr>PasswordHash := hashed\<rparr>]\<rparr>
           \<and> \<not> list_ex (\<lambda>r. ID r = newID \<or> Email r = TrimSpace (ToLower L email))
                 (rows (others db))"
  using assms
  by (auto simp: Register_def Let_def sanitizeUser_def Create_def pg_insert_def
      split: if_splits sum.splits option.splits)

section \<open>Facts about updates\<close>







section \<open>Register, Login, VerifyToken\<close>

text \<open>
  Claim C1, as amended. \<open>Register\<close> hashes the password with bcrypt, and bcrypt
  refuses a password of more than 72 bytes: for such a password, not empty and with an
  unused email, \<open>Register\<close> fails. For an email and a password that are not empty
  once normalised and an email no account has:
  \<^item> when bcrypt hashes the trimmed password and verifies it against that digest, the
    Store is reachable and holds neither the new identifier nor the email when the row
    is inserted, the JWT library reads back what it signs, and the token is verified
    before it expires, then \<open>Register\<close> succeeds, a login with the same credentials
    succeeds and returns a token, and \<open>VerifyToken\<close> accepts that token and resolves
    it to an account with the identifier \<open>Register\<close> returned;
  \<^item> when bcrypt refuses the trimmed password, \<open>Register\<close> fails with bcrypt's error
    and inserts nothing.
\<close>

theorem Register_Login_VerifyToken:
  assumes email: "TrimSpace (ToLower L email) \<noteq> []"
    and password: "TrimSpace password \<noteq> []"
    and unused: "GetByEmail db (TrimSpace (ToLower L email)) = Inl ErrUserNotFound"
  shows "(\<forall>hashed.
            bcrypt_GenerateFromPassword L (TrimSpace password) = Inr hashed
            \<and> bcrypt_CompareHashAndPassword L hashed (TrimSpace password)
            \<and> \<not> unavailable (others db)
            \<and> \<not> list_ex (\<lambda>r. ID r = newID \<or> Email r = TrimSpace (ToLower L email))
                  (rows (others db))
            \<and> library_roundtrip L (secret m) (Generate_claims m t_login newID)
            \<and> t_verify < NewNumericDate (t_login + expiration m)
          \<longrightarrow> (\<exists>u db' tok u' u''.
                 Register L t_reg newID others db email password name = (Inr u, db')
                 \<and> ID u = newID
                 \<and> Login L m t_login db' \<lparr>cred_Email = email, cred_Password = password\<rparr>
                     = (Inr (tok, u'), db')
                 \<and> VerifyToken L m t_verify db' tok = (Inr u'', db')
                 \<and> ID u'' = ID u))
         \<and> (\<forall>err. bcrypt_GenerateFromPassword L (TrimSpace password) = Inl err
              \<longrightarrow> Register L t_reg newID others db email password name
                    = (Inl err, others db))"
proof (intro conjI allI impI)
  fix hashed
  assume h: "bcrypt_GenerateFromPassword L (TrimSpace password) = Inr hashed
            \<and> bcrypt_CompareHashAndPassword L hashed (TrimSpace password)
            \<and> \<not> unavailable (others db)
            \<and> \<not> list_ex (\<lambda>r. ID r = newID \<or> Email r = TrimSpace (ToLower L email))
                  (rows (others db))
            \<and> library_roundtrip L (secret m) (Generate_claims m t_login newID)
            \<and> t_verify < NewNumericDate (t_login + expiration m)"
  then have hash: "bcrypt_GenerateFromPassword L (TrimSpace password) = Inr hashed"
    and compare: "bcrypt_CompareHashAndPassword L hashed (TrimSpace password)"
    and up: "\<not> unavailable (others db)"
    and free: "\<not> list_ex (\<lambda>r. ID r = newID \<or> Email r = TrimSpace (ToLower L email))
                  (rows (others db))"
    and lib: "library_roundtrip L (secret m) (Generate_claims m t_login newID)"
    and live: "t_verify < NewNumericDate (t_login + expiration m)"
    by simp_all
  let ?e = "TrimSpace (ToLower L email)"
  let ?user = "\<lparr>ID = newID, Email = ?e, Name = TrimSpace name, Role = [],
                 PasswordHash = hashed, CreatedAt = t_reg, UpdatedAt = t_reg\<rparr>"
  let ?db = "(others db)\<lparr>rows := rows (others db) @ [?user]\<rparr>"
  from free
  have free': "\<not> list_ex (\<lambda>r. ID r = ID ?user \<or> Email r = Email ?user) (rows (others db))"
    by simp
  have created: "Create (others db) ?user = Inr ?db"
    using up free' by (rule Create_appends)
  have reg: "Register L t_reg newID others db email password name
               = (Inr (sanitizeUser ?user), ?db)"
    using email password unused hash created by (simp add: Register_def Let_def)
  have byEmail: "GetByEmail ?db ?e = Inr ?user"
    using GetByEmail_after_insert [OF up free'] by simp
  have byID: "GetByID ?db newID = Inr ?user"
    using GetByID_after_insert [OF up free'] by simp
  from Generate_Validate [OF lib live] obtain tok
    where gen: "Generate L m t_login newID = Inr tok"
      and val: "Validate L m t_verify tok = Inr newID"
    by blast
  have login: "Login L m t_login ?db \<lparr>cred_Email = email, cred_Password = password\<rparr>
                 = (Inr (tok, sanitizeUser ?user), ?db)"
    using email password byEmail compare gen by (simp add: Login_def Let_def)
  have verify: "VerifyToken L m t_verify ?db tok = (Inr (sanitizeUser ?user), ?db)"
    using val byID by (simp add: VerifyToken_def)
  have "ID (sanitizeUser ?user) = newID" by (simp add: sanitizeUser_def)
  with reg login verify
  show "\<exists>u db' tok u' u''.
          Register L t_reg newID others db email password name = (Inr u, db')
          \<and> ID u = newID
          \<and> Login L m t_login db' \<lparr>cred_Email = email, cred_Password = password\<rparr>
              = (Inr (tok, u'), db')
          \<and> VerifyToken L m t_verify db' tok = (Inr u'', db')
          \<and> ID u'' = ID u"
    by blast
next
  fix err
  assume "bcrypt_GenerateFromPassword L (TrimSpace password) = Inl err"
  with email password unused
  show "Register L t_reg newID others db email password name = (Inl err, others db)"
    by (simp add: Register_def Let_def)
qed

theorem Register_Login_VerifyToken_witness:
  "(\<exists>u db' tok u' u''.
      Register demo_libs 1000000000 ''u-1'' (\<lambda>d. d) demo_db0
          '' A@Example.com'' ''secret1 '' '' Ann'' = (Inr u, db')
      \<and> ID u = ''u-1''
      \<and> Login demo_libs demo_manager 5000000001 db'
           \<lparr>cred_Email = '' A@Example.com'', cred_Password = ''secret1 ''\<rparr>
           = (Inr (tok, u'), db')
      \<and> VerifyToken demo_libs demo_manager 6000000000 db' tok = (Inr u'', db')
      \<and> ID u'' = ID u)
   \<and> Register demo_libs 1000000000 ''u-1'' (\<lambda>d. d) demo_db0
          '' A@Example.com'' ''secret1 '' '' Ann'' = (Inr (sanitizeUser demo_user), demo_db1)
   \<and> bcrypt_GenerateFromPassword demo_libs (TrimSpace (replicate 73 (CHR ''x'')))
       = Inl (ErrorString ''bcrypt: password length exceeds 72 bytes'')
   \<and> Register demo_libs 1000000000 ''u-1'' (\<lambda>d. d) demo_db0
          '' A@Example.com'' (replicate 73 (CHR ''x'')) '' Ann''
       = (Inl (ErrorString ''bcrypt: password length exceeds 72 bytes''), demo_db0)"
proof -
  have 1: "TrimSpace (ToLower demo_libs '' A@Example.com'') \<noteq> []" by code_simp
  have 2: "TrimSpace ''secret1 '' \<noteq> []" by code_simp
  have 6: "TrimSpace (replicate 73 (CHR ''x'')) \<noteq> []" by code_simp
  have 3: "GetByEmail demo_db0 (TrimSpace (ToLower demo_libs '' A@Example.com''))
             = Inl ErrUserNotFound"
    by code_simp
  have 4: "bcrypt_GenerateFromPassword demo_libs (TrimSpace ''secret1 '') = Inr ''$2a$secret1''
           \<and> bcrypt_CompareHashAndPassword demo_libs ''$2a$secret1'' (TrimSpace ''secret1 '')
           \<and> \<not> unavailable ((\<lambda>d. d) demo_db0)
           \<and> \<not> list_ex (\<lambda>r. ID r = ''u-1''
                           \<or> Email r = TrimSpace (ToLower demo_libs '' A@Example.com''))
                 (rows ((\<lambda>d. d) demo_db0))
           \<and> library_roundtrip demo_libs (secret demo_manager)
                (Generate_claims demo_manager 5000000001 ''u-1'')
           \<and> (6000000000::int) < NewNumericDate (5000000001 + expiration demo_manager)"
    by code_simp
  have 5: "bcrypt_GenerateFromPassword demo_libs (TrimSpace (replicate 73 (CHR ''x'')))
             = Inl (ErrorString ''bcrypt: password length exceeds 72 bytes'')"
    by code_simp
  have run: "Register demo_libs 1000000000 ''u-1'' (\<lambda>d. d) demo_db0
               '' A@Example.com'' ''secret1 '' '' Ann'' = (Inr (sanitizeUser demo_user), demo_db1)"
    by code_simp
  note ok = Register_Login_VerifyToken [OF 1 2 3, where others = "\<lambda>d. d" and newID = "''u-1''"
      and m = demo_manager and t_login = 5000000001 and t_verify = 6000000000
      and t_reg = 1000000000 and name = "'' Ann''"]
  note refused = Register_Login_VerifyToken [OF 1 6 3, where others = "\<lambda>d. d"
      and newID = "''u-1''" and t_reg = 1000000000 and name = "'' Ann''"]
  from ok 4 have ex: "\<exists>u db' tok u' u''.
      Register demo_libs 1000000000 ''u-1'' (\<lambda>d. d) demo_db0
          '' A@Example.com'' ''secret1 '' '' Ann'' = (Inr u, db')
      \<and> ID u = ''u-1''
      \<and> Login demo_libs demo_manager 5000000001 db'
           \<lparr>cred_Email = '' A@Example.com'', cred_Password = ''secret1 ''\<rparr>
           = (Inr (tok, u'), db')
      \<and> VerifyToken demo_libs demo_manager 6000000000 db' tok = (Inr u'', db')
      \<and> ID u'' = ID u"
    by blast
  from refused 5 have no: "Register demo_libs 1000000000 ''u-1'' (\<lambda>d. d) demo_db0
          '' A@Example.com'' (replicate 73 (CHR ''x'')) '' Ann''
       = (Inl (ErrorString ''bcrypt: password length exceeds 72 bytes''), demo_db0)"
    by simp
  from ex run 5 no show ?thesis
    by (intro conjI)
qed

theorem Register_Login_VerifyToken_counterexample:
  "TrimSpace (ToLower demo_libs ''b@example.com'') = ''b@example.com''
   \<and> length (TrimSpace (replicate 73 (CHR ''x''))) = 73
   \<and> GetByEmail demo_db0 ''b@example.com'' = Inl ErrUserNotFound
   \<and> Register demo_libs 1000000000 ''u-2'' (\<lambda>d. d) demo_db0 ''b@example.com''
        (replicate 73 (CHR ''x'')) ''Bob''
       = (Inl (ErrorString ''bcrypt: password length exceeds 72 bytes''), demo_db0)"
  by code_simp

section \<open>The token codec\<close>

text \<open>
  Claim C5. \<open>Validate\<close> returns an error, and no subject identifier, for a token that
  is malformed, for one whose signing method is not of the HMAC family, for one whose
  signature does not verify under the configured secret, and for one whose expires-at
  is not after the instant of validation; the last also when the signature is valid.
\<close>

theorem Validate_rejects:
  "(jwt_parse L tok = None \<longrightarrow> (\<exists>e. Validate L m now tok = Inl e))
   \<and> (\<forall>t. jwt_parse L tok = Some t \<and> \<not> is_SigningMethodHMAC (Method t)
          \<longrightarrow> (\<exists>e. Validate L m now tok = Inl e))
   \<and> (\<forall>t. jwt_parse L tok = Some t
             \<and> \<not> jwt_verify L (Method t) (SigningString t) (Signature t) (secret m)
          \<longrightarrow> (\<exists>e. Validate L m now tok = Inl e))
   \<and> (\<forall>t exp. jwt_parse L tok = Some t \<and> ExpiresAt (TokenClaims t) = Some exp \<and> exp \<le> now
          \<longrightarrow> (\<exists>e. Validate L m now tok = Inl e))"
  by (auto simp: Validate_def ParseWithClaims_def validate_claims_def split: option.splits)

theorem Validate_rejects_witness:
  "(jwt_parse demo_libs ''not a token'' = None
      \<and> (\<exists>e. Validate demo_libs demo_manager 6000000000 ''not a token'' = Inl e))
   \<and> (\<exists>t. jwt_parse demo_libs ''rs256.u-1.mac:k3y:rs256.u-1'' = Some t
          \<and> \<not> is_SigningMethodHMAC (Method t))
   \<and> (\<exists>e. Validate demo_libs demo_manager 6000000000 ''rs256.u-1.mac:k3y:rs256.u-1'' = Inl e)
   \<and> (\<exists>t. jwt_parse demo_libs ''hs256.u-1.forged'' = Some t
          \<and> \<not> jwt_verify demo_libs (Method t) (SigningString t) (Signature t)
                (secret demo_manager))
   \<and> (\<exists>e. Validate demo_libs demo_manager 6000000000 ''hs256.u-1.forged'' = Inl e)
   \<and> (\<exists>t. jwt_parse demo_libs ''hs256.u-1.mac:k3y:hs256.u-1'' = Some t
          \<and> jwt_verify demo_libs (Method t) (SigningString t) (Signature t)
                (secret demo_manager)
          \<and> ExpiresAt (TokenClaims t) = Some 65000000000)
   \<and> (\<exists>e. Validate demo_libs demo_manager 65000000000 ''hs256.u-1.mac:k3y:hs256.u-1'' = Inl e)
   \<and> Validate demo_libs demo_manager 64999999999 ''hs256.u-1.mac:k3y:hs256.u-1'' = Inr ''u-1''"
proof -
  let ?rs = "\<lparr>Method = RS256, TokenClaims = demo_claims, SigningString = ''rs256.u-1'',
               Signature = ''mac:k3y:rs256.u-1'', Valid = False\<rparr>"
  let ?forged = "\<lparr>Method = HS256, TokenClaims = demo_claims, SigningString = ''hs256.u-1'',
                   Signature = ''forged'', Valid = False\<rparr>"
  let ?good = "\<lparr>Method = HS256, TokenClaims = demo_claims, SigningString = ''hs256.u-1'',
                 Signature = ''mac:k3y:hs256.u-1'', Valid = False\<rparr>"
  have a: "jwt_parse demo_libs ''not a token'' = None"
    by code_simp
  have b: "jwt_parse demo_libs ''rs256.u-1.mac:k3y:rs256.u-1'' = Some ?rs
             \<and> \<not> is_SigningMethodHMAC (Method ?rs)"
    by code_simp
  have c: "jwt_parse demo_libs ''hs256.u-1.forged'' = Some ?forged
             \<and> \<not> jwt_verify demo_libs (Method ?forged) (SigningString ?forged)
                   (Signature ?forged) (secret demo_manager)"
    by code_simp
  have d: "jwt_parse demo_libs ''hs256.u-1.mac:k3y:hs256.u-1'' = Some ?good
             \<and> ExpiresAt (TokenClaims ?good) = Some 65000000000
             \<and> (65000000000::int) \<le> 65000000000"
    by code_simp
  have d': "jwt_verify demo_libs (Method ?good) (SigningString ?good) (Signature ?good)
              (secret demo_manager)"
    by code_simp
  have e: "Validate demo_libs demo_manager 64999999999 ''hs256.u-1.mac:k3y:hs256.u-1''
             = Inr ''u-1''"
    by code_simp
  from a b c d d' e
    Validate_rejects [of demo_libs "''not a token''" demo_manager 6000000000]
    Validate_rejects [of demo_libs "''rs256.u-1.mac:k3y:rs256.u-1''" demo_manager 6000000000]
    Validate_rejects [of demo_libs "''hs256.u-1.forged''" demo_manager 6000000000]
    Validate_rejects [of demo_libs "''hs256.u-1.mac:k3y:hs256.u-1''" demo_manager 65000000000]
  show ?thesis
    by simp
qed

section \<open>Token verification by the service\<close>

text \<open>
  Claim C2. \<open>VerifyToken\<close> answers with the one error \<open>ErrTokenInvalid\<close> whenever the
  codec fails to decode the token, whatever the codec's own error was, and whenever the
  subject the codec returns is not found in the Store. In particular a token that still
  validates is rejected with \<open>ErrTokenInvalid\<close> once its account has been deleted,
  through the repository or through the administration service (which deletes the
  account whose identifier is the trimmed argument).
\<close>

theorem VerifyToken_TokenInvalid:
  "(\<forall>e. Validate L m now tok = Inl e
        \<longrightarrow> VerifyToken L m now db tok = (Inl ErrTokenInvalid, db))
   \<and> (\<forall>uid. Validate L m now tok = Inr uid \<and> GetByID db uid = Inl ErrUserNotFound
        \<longrightarrow> VerifyToken L m now db tok = (Inl ErrTokenInvalid, db))
   \<and> (\<forall>uid db'. Validate L m now tok = Inr uid \<and> Delete db uid = Inr db'
        \<longrightarrow> VerifyToken L m now db' tok = (Inl ErrTokenInvalid, db'))
   \<and> (\<forall>accountID db'. Validate L m now tok = Inr (TrimSpace accountID)
              \<and> user_Delete db accountID = (Inr (), db')
        \<longrightarrow> VerifyToken L m now db' tok = (Inl ErrTokenInvalid, db'))"
proof (intro conjI allI impI)
  fix e assume "Validate L m now tok = Inl e"
  then show "VerifyToken L m now db tok = (Inl ErrTokenInvalid, db)"
    by (simp add: VerifyToken_def)
next
  fix uid assume "Validate L m now tok = Inr uid \<and> GetByID db uid = Inl ErrUserNotFound"
  then show "VerifyToken L m now db tok = (Inl ErrTokenInvalid, db)"
    by (simp add: VerifyToken_def)
next
  fix uid db' assume h: "Validate L m now tok = Inr uid \<and> Delete db uid = Inr db'"
  then have "GetByID db' uid = Inl ErrUserNotFound"
    by (blast intro: GetByID_after_Delete)
  with h show "VerifyToken L m now db' tok = (Inl ErrTokenInvalid, db')"
    by (simp add: VerifyToken_def)
next
  fix accountID db'
  assume h: "Validate L m now tok = Inr (TrimSpace accountID)
               \<and> user_Delete db accountID = (Inr (), db')"
  then have "Delete db (TrimSpace accountID) = Inr db'"
    by (auto simp: user_Delete_def Let_def split: if_splits sum.splits)
  then have "GetByID db' (TrimSpace accountID) = Inl ErrUserNotFound"
    by (rule GetByID_after_Delete)
  with h show "VerifyToken L m now db' tok = (Inl ErrTokenInvalid, db')"
    by (simp add: VerifyToken_def)
qed

theorem VerifyToken_TokenInvalid_witness:
  "Validate demo_libs demo_manager 6000000000 ''hs256.u-1.forged''
     = Inl (ErrorString ''token signature is invalid'')
   \<and> VerifyToken demo_libs demo_manager 6000000000 demo_db1 ''hs256.u-1.forged''
       = (Inl ErrTokenInvalid, demo_db1)
   \<and> Validate demo_libs demo_manager 6000000000 ''hs256.u-1.mac:k3y:hs256.u-1'' = Inr ''u-1''
   \<and> GetByID demo_db0 ''u-1'' = Inl ErrUserNotFound
   \<and> VerifyToken demo_libs demo_manager 6000000000 demo_db0 ''hs256.u-1.mac:k3y:hs256.u-1''
       = (Inl ErrTokenInvalid, demo_db0)
   \<and> VerifyToken demo_libs demo_manager 6000000000 demo_db1 ''hs256.u-1.mac:k3y:hs256.u-1''
       = (Inr (sanitizeUser demo_user), demo_db1)
   \<and> Delete demo_db1 ''u-1'' = Inr demo_db0
   \<and> user_Delete demo_db1 '' u-1 '' = (Inr (), demo_db0)"
proof -
  have a: "Validate demo_libs demo_manager 6000000000 ''hs256.u-1.forged''
             = Inl (ErrorString ''token signature is invalid'')"
    by code_simp
  have b: "Validate demo_libs demo_manager 6000000000 ''hs256.u-1.mac:k3y:hs256.u-1''
             = Inr ''u-1''"
    by code_simp
  have c: "GetByID demo_db0 ''u-1'' = Inl ErrUserNotFound"
    by code_simp
  have d: "Delete demo_db1 ''u-1'' = Inr demo_db0"
    by code_simp
  have e: "VerifyToken demo_libs demo_manager 6000000000 demo_db1 ''hs256.u-1.mac:k3y:hs256.u-1''
             = (Inr (sanitizeUser demo_user), demo_db1)"
    by code_simp
  have f: "user_Delete demo_db1 '' u-1 '' = (Inr (), demo_db0) \<and> TrimSpace '' u-1 '' = ''u-1''"
    by code_simp
  from a b c d e f
    VerifyToken_TokenInvalid [of demo_libs demo_manager 6000000000 "''hs256.u-1.forged''" demo_db1]
    VerifyToken_TokenInvalid [of demo_libs demo_manager 6000000000
      "''hs256.u-1.mac:k3y:hs256.u-1''" demo_db0]
    VerifyToken_TokenInvalid [of demo_libs demo_manager 6000000000
      "''hs256.u-1.mac:k3y:hs256.u-1''" demo_db1]
  show ?thesis
    by simp
qed

section \<open>Login failures\<close>

text \<open>
  Claim C4. A login with an email that is not in the Store and a login with an email
  that is there and a password that does not verify fail with the same value,
  \<open>ErrInvalidCredentials\<close>; so does a login whose email or password is empty after
  normalisation, whichever of the two it is. The Store is left as it was.
\<close>

theorem Login_InvalidCredentials:
  "(GetByEmail db (TrimSpace (ToLower L (cred_Email creds))) = Inl ErrUserNotFound
      \<longrightarrow> Login L m now db creds = (Inl ErrInvalidCredentials, db))
   \<and> (\<forall>user. GetByEmail db (TrimSpace (ToLower L (cred_Email creds))) = Inr user
              \<and> \<not> bcrypt_CompareHashAndPassword L (PasswordHash user)
                    (TrimSpace (cred_Password creds))
        \<longrightarrow> Login L m now db creds = (Inl ErrInvalidCredentials, db))
   \<and> (TrimSpace (ToLower L (cred_Email creds)) = [] \<or> TrimSpace (cred_Password creds) = []
        \<longrightarrow> Login L m now db creds = (Inl ErrInvalidCredentials, db))"
  by (auto simp: Login_def Let_def)

theorem Login_InvalidCredentials_witness:
  "GetByEmail demo_db1 (TrimSpace (ToLower demo_libs ''Nobody@example.com'')) = Inl ErrUserNotFound
   \<and> Login demo_libs demo_manager 5000000001 demo_db1
        \<lparr>cred_Email = ''Nobody@example.com'', cred_Password = ''secret1''\<rparr>
       = (Inl ErrInvalidCredentials, demo_db1)
   \<and> GetByEmail demo_db1 (TrimSpace (ToLower demo_libs ''A@example.com'')) = Inr demo_user
   \<and> \<not> bcrypt_CompareHashAndPassword demo_libs (PasswordHash demo_user) (TrimSpace ''secret2'')
   \<and> Login demo_libs demo_manager 5000000001 demo_db1
        \<lparr>cred_Email = ''A@example.com'', cred_Password = ''secret2''\<rparr>
       = (Inl ErrInvalidCredentials, demo_db1)
   \<and> TrimSpace (ToLower demo_libs ''  '') = []
   \<and> Login demo_libs demo_manager 5000000001 demo_db1
        \<lparr>cred_Email = ''  '', cred_Password = ''secret1''\<rparr>
       = (Inl ErrInvalidCredentials, demo_db1)
   \<and> TrimSpace [CHR 0x09, CHR 0x20] = []
   \<and> Login demo_libs demo_manager 5000000001 demo_db1
        \<lparr>cred_Email = ''A@example.com'', cred_Password = [CHR 0x09, CHR 0x20]\<rparr>
       = (Inl ErrInvalidCredentials, demo_db1)"
proof -
  have a: "GetByEmail demo_db1 (TrimSpace (ToLower demo_libs ''Nobody@example.com'')) = Inl ErrUserNotFound"
    by code_simp
  have b: "GetByEmail demo_db1 (TrimSpace (ToLower demo_libs ''A@example.com'')) = Inr demo_user"
    by code_simp
  have c: "\<not> bcrypt_CompareHashAndPassword demo_libs (PasswordHash demo_user)
               (TrimSpace ''secret2'')"
    by code_simp
  have d: "TrimSpace (ToLower demo_libs ''  '') = []"
    by code_simp
  have e: "TrimSpace [CHR 0x09, CHR 0x20] = []"
    by code_simp
  from a b c d e
    Login_InvalidCredentials [where db = demo_db1 and creds = "\<lparr>cred_Email = ''Nobody@example.com'', cred_Password = ''secret1''\<rparr>"
      and L = demo_libs and m = demo_manager and now = 5000000001]
    Login_InvalidCredentials [where db = demo_db1 and creds = "\<lparr>cred_Email = ''A@example.com'', cred_Password = ''secret2''\<rparr>"
      and L = demo_libs and m = demo_manager and now = 5000000001]
    Login_InvalidCredentials [where db = demo_db1 and creds = "\<lparr>cred_Email = ''  '', cred_Password = ''secret1''\<rparr>"
      and L = demo_libs and m = demo_manager and now = 5000000001]
    Login_InvalidCredentials [where db = demo_db1 and creds = "\<lparr>cred_Email = ''A@example.com'', cred_Password = [CHR 0x09, CHR 0x20]\<rparr>"
      and L = demo_libs and m = demo_manager and now = 5000000001]
  show ?thesis
    by simp
qed

section \<open>Sanitised accounts\<close>

text \<open>
  Claim C7. Every account that \<open>Register\<close>, \<open>Login\<close>, \<open>VerifyToken\<close> and the
  administration service's \<open>List\<close>, \<open>Get\<close>, \<open>Create\<close> and \<open>Update\<close> return has an empty
  password hash, while the rows of the Store keep theirs.
\<close>

theorem outward_accounts_have_no_hash:
  "(\<forall>u db'. Register L now newID others db email password name = (Inr u, db')
        \<longrightarrow> PasswordHash u = [])
   \<and> (\<forall>tok u db'. Login L m now1 db1 creds = (Inr (tok, u), db') \<longrightarrow> PasswordHash u = [])
   \<and> (\<forall>u db'. VerifyToken L m now2 db2 token = (Inr u, db') \<longrightarrow> PasswordHash u = [])
   \<and> (\<forall>us db'. user_List L db3 role = (Inr us, db')
        \<longrightarrow> list_all (\<lambda>u. PasswordHash u = []) us)
   \<and> (\<forall>u db'. user_Get db4 uid = (Inr u, db') \<longrightarrow> PasswordHash u = [])
   \<and> (\<forall>u db'. user_Create L now5 newID5 db5 input5 = (Inr u, db') \<longrightarrow> PasswordHash u = [])
   \<and> (\<forall>u db'. user_Update L now6 db6 uid6 input6 = (Inr u, db') \<longrightarrow> PasswordHash u = [])"
  by (intro conjI allI impI)
    (erule Register_sanitized Login_sanitized VerifyToken_sanitized user_List_sanitized
      user_Get_sanitized user_Create_sanitized user_Update_sanitized)+

theorem outward_accounts_have_no_hash_witness:
  "(\<exists>u db'. Register demo_libs 1000000000 ''u-1'' (\<lambda>d. d) demo_db0
                 ''A@Example.com'' ''secret1'' ''Ann'' = (Inr u, db')
             \<and> PasswordHash u = [])
   \<and> (\<exists>tok u db'. Login demo_libs demo_manager 5000000001 demo_db1
                 \<lparr>cred_Email = ''a@example.com'', cred_Password = ''secret1''\<rparr>
                 = (Inr (tok, u), db')
             \<and> PasswordHash u = [])
   \<and> (\<exists>u db'. VerifyToken demo_libs demo_manager 6000000000 demo_db1
                 ''hs256.u-1.mac:k3y:hs256.u-1'' = (Inr u, db')
             \<and> PasswordHash u = [])
   \<and> (\<exists>us db'. user_List demo_libs demo_db1 [] = (Inr us, db') \<and> length us = 2
             \<and> list_all (\<lambda>u. PasswordHash u = []) us)
   \<and> (\<exists>u db'. user_Get demo_db1 ''u-1'' = (Inr u, db') \<and> PasswordHash u = [])
   \<and> (\<exists>u db'. user_Create demo_libs 1000000000 ''u-1'' demo_db0
                 \<lparr>ci_Email = ''A@Example.com'', ci_Name = ''Ann'', ci_Password = ''secret1'',
                  ci_Role = []\<rparr> = (Inr u, db')
             \<and> PasswordHash u = [])
   \<and> (\<exists>u db'. user_Update demo_libs 7000000000 demo_db1 ''u-1''
                 \<lparr>ui_Email = None, ui_Name = Some ''Anna'', ui_Role = None\<rparr> = (Inr u, db')
             \<and> PasswordHash u = [])
   \<and> list_all (\<lambda>u. PasswordHash u \<noteq> []) (rows demo_db1)"
proof -
  let ?anna = "demo_user\<lparr>Name := ''Anna'', UpdatedAt := 7000000000\<rparr>"
  have a: "Register demo_libs 1000000000 ''u-1'' (\<lambda>d. d) demo_db0
             ''A@Example.com'' ''secret1'' ''Ann'' = (Inr (sanitizeUser demo_user), demo_db1)"
    by code_simp
  have b: "Login demo_libs demo_manager 5000000001 demo_db1
             \<lparr>cred_Email = ''a@example.com'', cred_Password = ''secret1''\<rparr>
             = (Inr (''hs256.u-1.mac:k3y:hs256.u-1'', sanitizeUser demo_user), demo_db1)"
    by code_simp
  have c: "VerifyToken demo_libs demo_manager 6000000000 demo_db1
             ''hs256.u-1.mac:k3y:hs256.u-1'' = (Inr (sanitizeUser demo_user), demo_db1)"
    by code_simp
  have d: "user_List demo_libs demo_db1 [] = (Inr [sanitizeUser demo_user, sanitizeUser demo_admin], demo_db1)"
    by code_simp
  have e: "user_Get demo_db1 ''u-1'' = (Inr (sanitizeUser demo_user), demo_db1)"
    by code_simp
  have f: "user_Create demo_libs 1000000000 ''u-1'' demo_db0
             \<lparr>ci_Email = ''A@Example.com'', ci_Name = ''Ann'', ci_Password = ''secret1'',
              ci_Role = []\<rparr>
             = (Inr (sanitizeUser (demo_user\<lparr>Role := RoleUser\<rparr>)),
                demo_db0\<lparr>rows := [demo_admin, demo_user\<lparr>Role := RoleUser\<rparr>]\<rparr>)"
    by code_simp
  have g: "user_Update demo_libs 7000000000 demo_db1 ''u-1''
             \<lparr>ui_Email = None, ui_Name = Some ''Anna'', ui_Role = None\<rparr>
             = (Inr (sanitizeUser ?anna), demo_db1\<lparr>rows := [demo_admin, ?anna]\<rparr>)"
    by code_simp
  have h: "list_all (\<lambda>u. PasswordHash u \<noteq> []) (rows demo_db1)"
    by code_simp
  have len: "length [sanitizeUser demo_user, sanitizeUser demo_admin] = 2"
    by simp
  note inst = outward_accounts_have_no_hash [of demo_libs 1000000000 "''u-1''" "\<lambda>d. d" demo_db0
      "''A@Example.com''" "''secret1''" "''Ann''"
      demo_manager 5000000001 demo_db1
      "\<lparr>cred_Email = ''a@example.com'', cred_Password = ''secret1''\<rparr>"
      6000000000 demo_db1 "''hs256.u-1.mac:k3y:hs256.u-1''"
      demo_db1 "[]" demo_db1 "''u-1''"
      1000000000 "''u-1''" demo_db0
      "\<lparr>ci_Email = ''A@Example.com'', ci_Name = ''Ann'', ci_Password = ''secret1'',
        ci_Role = []\<rparr>"
      7000000000 demo_db1 "''u-1''"
      "\<lparr>ui_Email = None, ui_Name = Some ''Anna'', ui_Role = None\<rparr>"]
  show ?thesis
    using a b c d e f g h len inst by blast
qed

section \<open>Registering an email twice\<close>

text \<open>
  Claim C6, as amended. \<open>Register\<close> validates before it looks anything up. For an
  email that is not empty once normalised (lower-cased by \<open>strings.ToLower\<close>, then
  trimmed):
  \<^item> with a password that is not empty after trimming, a registration whose normalised
    email belongs to a persisted account fails with \<open>ErrEmailExists\<close>, whatever the
    password: when the look-up finds the account, and when the look-up misses, the
    password is hashed and the insert meets a row with that email committed in between,
    whose uniqueness violation the repository turns into \<open>ErrEmailExists\<close>;
  \<^item> with a password that is empty after trimming it fails with the validation error
    "password is required" and the Store is not consulted, also when the email is taken.
\<close>

theorem Register_EmailExists:
  assumes email: "TrimSpace (ToLower L email) \<noteq> []"
  shows "(\<forall>found. TrimSpace password \<noteq> []
              \<and> GetByEmail db (TrimSpace (ToLower L email)) = Inr found
            \<longrightarrow> Register L now newID others db email password name = (Inl ErrEmailExists, db))
         \<and> (\<forall>hashed. TrimSpace password \<noteq> []
                \<and> GetByEmail db (TrimSpace (ToLower L email)) = Inl ErrUserNotFound
                \<and> bcrypt_GenerateFromPassword L (TrimSpace password) = Inr hashed
                \<and> \<not> unavailable (others db)
                \<and> list_ex (\<lambda>r. Email r = TrimSpace (ToLower L email)) (rows (others db))
            \<longrightarrow> Register L now newID others db email password name
                  = (Inl ErrEmailExists, others db))
         \<and> (TrimSpace password = []
            \<longrightarrow> Register L now newID others db email password name
                  = (Inl (ErrorString ''password is required''), db))"
proof (intro conjI allI impI)
  fix found
  assume "TrimSpace password \<noteq> [] \<and> GetByEmail db (TrimSpace (ToLower L email)) = Inr found"
  with email
  show "Register L now newID others db email password name = (Inl ErrEmailExists, db)"
    by (simp add: Register_def Let_def)
next
  fix hashed
  let ?e = "TrimSpace (ToLower L email)"
  let ?user = "\<lparr>ID = newID, Email = ?e, Name = TrimSpace name, Role = [],
                 PasswordHash = hashed, CreatedAt = now, UpdatedAt = now\<rparr>"
  assume h: "TrimSpace password \<noteq> []
               \<and> GetByEmail db ?e = Inl ErrUserNotFound
               \<and> bcrypt_GenerateFromPassword L (TrimSpace password) = Inr hashed
               \<and> \<not> unavailable (others db)
               \<and> list_ex (\<lambda>r. Email r = ?e) (rows (others db))"
  then have "list_ex (\<lambda>r. ID r = ID ?user \<or> Email r = Email ?user) (rows (others db))"
    by (auto simp: list_ex_iff)
  with h have "pg_insert (others db) ?user = Inl UniqueViolation"
    by (simp add: pg_insert_def)
  then have "Create (others db) ?user = Inl ErrEmailExists"
    by (simp add: Create_def isUniqueViolation_def)
  with h email
  show "Register L now newID others db email password name = (Inl ErrEmailExists, others db)"
    by (simp add: Register_def Let_def)
next
  assume "TrimSpace password = []"
  with email
  show "Register L now newID others db email password name
          = (Inl (ErrorString ''password is required''), db)"
    by (simp add: Register_def Let_def)
qed

theorem Register_EmailExists_witness:
  "GetByEmail demo_db1 (TrimSpace (ToLower demo_libs '' A@Example.com'')) = Inr demo_user
   \<and> Register demo_libs 2000000000 ''u-2'' (\<lambda>d. d) demo_db1 '' A@Example.com'' ''another1''
        ''Bob'' = (Inl ErrEmailExists, demo_db1)
   \<and> GetByEmail demo_db2 (TrimSpace (ToLower demo_libs ([CHR 0xC3, CHR 0x89] @ ''@X.com'')))
       = Inr demo_eve
   \<and> Register demo_libs 3000000000 ''u-4'' (\<lambda>d. d) demo_db2
        ([CHR 0xC3, CHR 0x89] @ ''@X.com'') ''another1'' ''Bob'' = (Inl ErrEmailExists, demo_db2)
   \<and> GetByEmail demo_db0 (TrimSpace (ToLower demo_libs '' A@Example.com'')) = Inl ErrUserNotFound
   \<and> Register demo_libs 2000000000 ''u-2'' (\<lambda>d. d\<lparr>rows := rows d @ [demo_user]\<rparr>) demo_db0
        '' A@Example.com'' ''another1'' ''Bob'' = (Inl ErrEmailExists, demo_db1)
   \<and> Register demo_libs 2000000000 ''u-2'' (\<lambda>d. d) demo_db1 '' A@Example.com''
        [CHR 0x20, CHR 0x09] ''Bob'' = (Inl (ErrorString ''password is required''), demo_db1)"
proof -
  let ?race = "\<lambda>d. d\<lparr>rows := rows d @ [demo_user]\<rparr>"
  let ?E = "[CHR 0xC3, CHR 0x89] @ ''@X.com''"
  have 1: "TrimSpace (ToLower demo_libs '' A@Example.com'') \<noteq> []" by code_simp
  have 2: "TrimSpace (ToLower demo_libs ?E) \<noteq> []" by code_simp
  have a: "TrimSpace ''another1'' \<noteq> []
           \<and> GetByEmail demo_db1 (TrimSpace (ToLower demo_libs '' A@Example.com''))
               = Inr demo_user"
    by code_simp
  have a': "TrimSpace ''another1'' \<noteq> []
           \<and> GetByEmail demo_db2 (TrimSpace (ToLower demo_libs ?E)) = Inr demo_eve"
    by code_simp
  have b: "TrimSpace ''another1'' \<noteq> []
           \<and> GetByEmail demo_db0 (TrimSpace (ToLower demo_libs '' A@Example.com''))
               = Inl ErrUserNotFound
           \<and> bcrypt_GenerateFromPassword demo_libs (TrimSpace ''another1'') = Inr ''$2a$another1''
           \<and> \<not> unavailable (?race demo_db0)
           \<and> list_ex (\<lambda>r. Email r = TrimSpace (ToLower demo_libs '' A@Example.com''))
                (rows (?race demo_db0))"
    by code_simp
  have c: "?race demo_db0 = demo_db1" by code_simp
  have d: "TrimSpace [CHR 0x20, CHR 0x09] = []" by code_simp
  from a Register_EmailExists [OF 1, where db = demo_db1 and now = 2000000000
      and newID = "''u-2''" and others = "\<lambda>d. d" and name = "''Bob''"
      and password = "''another1''"]
  have r1: "Register demo_libs 2000000000 ''u-2'' (\<lambda>d. d) demo_db1 '' A@Example.com''
              ''another1'' ''Bob'' = (Inl ErrEmailExists, demo_db1)"
    by blast
  from a' Register_EmailExists [OF 2, where db = demo_db2 and now = 3000000000
      and newID = "''u-4''" and others = "\<lambda>d. d" and name = "''Bob''"
      and password = "''another1''"]
  have r2: "Register demo_libs 3000000000 ''u-4'' (\<lambda>d. d) demo_db2 ?E
              ''another1'' ''Bob'' = (Inl ErrEmailExists, demo_db2)"
    by blast
  from b Register_EmailExists [OF 1, where db = demo_db0 and now = 2000000000
      and newID = "''u-2''" and others = ?race and name = "''Bob''"
      and password = "''another1''"]
  have "Register demo_libs 2000000000 ''u-2'' ?race demo_db0 '' A@Example.com''
          ''another1'' ''Bob'' = (Inl ErrEmailExists, ?race demo_db0)"
    by blast
  with c have r3: "Register demo_libs 2000000000 ''u-2'' ?race demo_db0 '' A@Example.com''
          ''another1'' ''Bob'' = (Inl ErrEmailExists, demo_db1)"
    by simp
  from d Register_EmailExists [OF 1, where db = demo_db1 and now = 2000000000
      and newID = "''u-2''" and others = "\<lambda>d. d" and name = "''Bob''"
      and password = "[CHR 0x20, CHR 0x09]"]
  have r4: "Register demo_libs 2000000000 ''u-2'' (\<lambda>d. d) demo_db1 '' A@Example.com''
        [CHR 0x20, CHR 0x09] ''Bob'' = (Inl (ErrorString ''password is required''), demo_db1)"
    by blast
  from a a' b r1 r2 r3 r4 show ?thesis by simp
qed

theorem Register_EmailExists_counterexample:
  "GetByEmail demo_db1 (TrimSpace (ToLower demo_libs ''A@Example.com'')) = Inr demo_user
   \<and> Register demo_libs 2000000000 ''u-2'' (\<lambda>d. d) demo_db1 ''A@Example.com'' ''   '' ''Bob''
       = (Inl (ErrorString ''password is required''), demo_db1)
   \<and> Inl (ErrorString ''password is required'') \<noteq> (Inl ErrEmailExists :: error + User)"
  by code_simp

section \<open>The role of a registered account\<close>

text \<open>
  Claim C3 says that the account \<open>Register\<close> persists and returns has the role
  \<open>user\<close>. \<open>Register\<close> builds the user without a role, so the returned account and
  the inserted row carry the empty role; the administration service's \<open>Create\<close>, the
  sibling path, defaults the role to \<open>RoleUser\<close> through \<open>ensureRole\<close>. The run
  below shows both on the same input; the identifier and the two timestamps are the
  ones the claim names.
\<close>

theorem Register_leaves_Role_empty:
  "Register demo_libs 1000000000 ''u-1'' (\<lambda>d. d) demo_db0 ''A@Example.com'' ''secret1'' ''Ann''
     = (Inr (sanitizeUser demo_user), demo_db1)
   \<and> Role (sanitizeUser demo_user) = []
   \<and> Role (sanitizeUser demo_user) \<noteq> RoleUser
   \<and> map Role (rows demo_db1) = [RoleAdmin, []]
   \<and> fst (user_Create demo_libs 1000000000 ''u-1'' demo_db0
             \<lparr>ci_Email = ''A@Example.com'', ci_Name = ''Ann'', ci_Password = ''secret1'',
              ci_Role = []\<rparr>)
       = Inr (sanitizeUser (demo_user\<lparr>Role := RoleUser\<rparr>))"
  by code_simp

section \<open>The authorization middleware\<close>

text \<open>
  Claim C8. A request whose Authorization header is missing (the empty string), or does
  not start with \<open>bearer\<close> and a space in any mix of cases, or has nothing but white
  space after that prefix, is answered with status 401 by the middleware; neither
  \<open>VerifyToken\<close> nor the wrapped handler is called, and the Store is left as it was.
\<close>

theorem authMiddleware_rejects_without_token:
  assumes "authorization = [] \<or> take 7 (ToLower L authorization) \<noteq> ''bearer ''
           \<or> TrimSpace (drop 7 authorization) = []"
  shows "authMiddleware L m now next authorization db
           = ((writeError 401 ''authorization token required'', db), [])
         \<and> status (fst (fst (authMiddleware L m now next authorization db))) = 401
         \<and> snd (authMiddleware L m now next authorization db) = []"
proof -
  from assms have "extractBearerToken L authorization = []"
    by (auto simp: extractBearerToken_def)
  then show ?thesis
    by (simp add: authMiddleware_def writeError_def writeJSON_def)
qed

theorem authMiddleware_rejects_without_token_witness:
  "authMiddleware demo_libs demo_manager 6000000000 (\<lambda>u d. (writeJSON 200 (UserEnvelope u), d))
      [] demo_db1 = ((writeError 401 ''authorization token required'', demo_db1), [])
   \<and> take 7 (ToLower demo_libs ''Basic dXNlcg=='') \<noteq> ''bearer ''
   \<and> authMiddleware demo_libs demo_manager 6000000000 (\<lambda>u d. (writeJSON 200 (UserEnvelope u), d))
      ''Basic dXNlcg=='' demo_db1 = ((writeError 401 ''authorization token required'', demo_db1), [])
   \<and> TrimSpace (drop 7 ''BEARER   '') = []
   \<and> authMiddleware demo_libs demo_manager 6000000000 (\<lambda>u d. (writeJSON 200 (UserEnvelope u), d))
      ''BEARER   '' demo_db1 = ((writeError 401 ''authorization token required'', demo_db1), [])
   \<and> authMiddleware demo_libs demo_manager 6000000000 (\<lambda>u d. (writeJSON 200 (UserEnvelope u), d))
      ''bEaReR hs256.u-1.mac:k3y:hs256.u-1'' demo_db1
      = ((writeJSON 200 (UserEnvelope (sanitizeUser demo_user)), demo_db1),
         [Called_VerifyToken ''hs256.u-1.mac:k3y:hs256.u-1'', Called_next (sanitizeUser demo_user)])"
proof -
  let ?handler = "\<lambda>u d. (writeJSON 200 (UserEnvelope u), d)"
  have a: "([]::string) = [] \<or> take 7 (ToLower demo_libs []) \<noteq> ''bearer '' \<or> TrimSpace (drop 7 []) = []"
    by simp
  have b: "take 7 (ToLower demo_libs ''Basic dXNlcg=='') \<noteq> ''bearer ''"
    by code_simp
  have c: "TrimSpace (drop 7 ''BEARER   '') = []"
    by code_simp
  have d: "authMiddleware demo_libs demo_manager 6000000000 ?handler
      ''bEaReR hs256.u-1.mac:k3y:hs256.u-1'' demo_db1
      = ((writeJSON 200 (UserEnvelope (sanitizeUser demo_user)), demo_db1),
         [Called_VerifyToken ''hs256.u-1.mac:k3y:hs256.u-1'', Called_next (sanitizeUser demo_user)])"
    by code_simp
  from b have b': "''Basic dXNlcg=='' = [] \<or> take 7 (ToLower demo_libs ''Basic dXNlcg=='') \<noteq> ''bearer ''
           \<or> TrimSpace (drop 7 ''Basic dXNlcg=='') = []"
    by blast
  from c have c': "''BEARER   '' = [] \<or> take 7 (ToLower demo_libs ''BEARER   '') \<noteq> ''bearer ''
           \<or> TrimSpace (drop 7 ''BEARER   '') = []"
    by blast
  from b c d
    authMiddleware_rejects_without_token [OF a, where m = demo_manager and now = 6000000000
      and ?next = ?handler and db = demo_db1]
    authMiddleware_rejects_without_token [OF b', where m = demo_manager and now = 6000000000
      and ?next = ?handler and db = demo_db1]
    authMiddleware_rejects_without_token [OF c', where m = demo_manager and now = 6000000000
      and ?next = ?handler and db = demo_db1]
  show ?thesis
    by blast
qed

section \<open>Sanitising copies\<close>

text \<open>
  Claim C10. \<open>sanitizeUser\<close> does not touch the account it is given: on a pointer that
  is not nil it allocates a new object, a copy with the password hash cleared and every
  other field as it was, and leaves every object of the heap, the original among them,
  as it was; nil it returns as nil. The operations that only read (\<open>Login\<close>,
  \<open>VerifyToken\<close>, the administration service's \<open>Get\<close> and \<open>List\<close>) leave the Store, and
  so the hashes it holds, unchanged.
\<close>

theorem sanitizing_leaves_the_original:
  "(\<forall>a. a < length h \<longrightarrow>
        (\<exists>a'. sanitizeUser_ptr h (Some a) = (h @ [sanitizeUser (h ! a)], Some a')
              \<and> a' \<noteq> a \<and> length h \<le> a'
              \<and> (h @ [sanitizeUser (h ! a)]) ! a' = sanitizeUser (h ! a)
              \<and> take (length h) (h @ [sanitizeUser (h ! a)]) = h
              \<and> (h @ [sanitizeUser (h ! a)]) ! a = h ! a))
   \<and> sanitizeUser_ptr h None = (h, None)
   \<and> sanitizeUser u = u\<lparr>PasswordHash := []\<rparr>
   \<and> ID (sanitizeUser u) = ID u \<and> Email (sanitizeUser u) = Email u
   \<and> Name (sanitizeUser u) = Name u \<and> Role (sanitizeUser u) = Role u
   \<and> CreatedAt (sanitizeUser u) = CreatedAt u \<and> UpdatedAt (sanitizeUser u) = UpdatedAt u
   \<and> snd (Login L m now db creds) = db
   \<and> snd (VerifyToken L m now db tok) = db
   \<and> snd (user_Get db uid) = db
   \<and> snd (user_List L db role) = db"
proof -
  have login: "snd (Login L m now db creds) = db"
    by (simp add: Login_def Let_def split: sum.splits)
  have verify: "snd (VerifyToken L m now db tok) = db"
    by (simp add: VerifyToken_def split: sum.splits)
  have get: "snd (user_Get db uid) = db"
    by (simp add: user_Get_def Let_def split: sum.splits)
  have list: "snd (user_List L db role) = db"
    by (simp add: user_List_def Let_def split: sum.splits)
  have ptr: "\<forall>a. a < length h \<longrightarrow>
        (\<exists>a'. sanitizeUser_ptr h (Some a) = (h @ [sanitizeUser (h ! a)], Some a')
              \<and> a' \<noteq> a \<and> length h \<le> a'
              \<and> (h @ [sanitizeUser (h ! a)]) ! a' = sanitizeUser (h ! a)
              \<and> take (length h) (h @ [sanitizeUser (h ! a)]) = h
              \<and> (h @ [sanitizeUser (h ! a)]) ! a = h ! a)"
    by (simp add: sanitizeUser_ptr_def sanitizeUser_def nth_append)
  have val: "sanitizeUser u = u\<lparr>PasswordHash := []\<rparr>
   \<and> ID (sanitizeUser u) = ID u \<and> Email (sanitizeUser u) = Email u
   \<and> Name (sanitizeUser u) = Name u \<and> Role (sanitizeUser u) = Role u
   \<and> CreatedAt (sanitizeUser u) = CreatedAt u \<and> UpdatedAt (sanitizeUser u) = UpdatedAt u"
    by (simp add: sanitizeUser_def)
  have nil: "sanitizeUser_ptr h None = (h, None)"
    by (simp add: sanitizeUser_ptr_def)
  from login verify get list ptr val nil show ?thesis
    by blast
qed

theorem sanitizing_leaves_the_original_witness:
  "sanitizeUser_ptr [demo_admin, demo_user] (Some 1)
     = ([demo_admin, demo_user, sanitizeUser demo_user], Some 2)
   \<and> [demo_admin, demo_user, sanitizeUser demo_user] ! 1 = demo_user
   \<and> PasswordHash demo_user = ''$2a$secret1''
   \<and> PasswordHash (sanitizeUser demo_user) = []
   \<and> fst (Login demo_libs demo_manager 5000000001 demo_db1
            \<lparr>cred_Email = ''a@example.com'', cred_Password = ''secret1''\<rparr>)
       = Inr (''hs256.u-1.mac:k3y:hs256.u-1'', sanitizeUser demo_user)
   \<and> snd (Login demo_libs demo_manager 5000000001 demo_db1
            \<lparr>cred_Email = ''a@example.com'', cred_Password = ''secret1''\<rparr>) = demo_db1"
proof -
  have a: "(1::nat) < length [demo_admin, demo_user]" by simp
  have b: "[demo_admin, demo_user] ! 1 = demo_user" by simp
  have c: "PasswordHash demo_user = ''$2a$secret1'' \<and> PasswordHash (sanitizeUser demo_user) = []"
    by code_simp
  have d: "fst (Login demo_libs demo_manager 5000000001 demo_db1
            \<lparr>cred_Email = ''a@example.com'', cred_Password = ''secret1''\<rparr>)
       = Inr (''hs256.u-1.mac:k3y:hs256.u-1'', sanitizeUser demo_user)"
    by code_simp
  have e: "sanitizeUser_ptr [demo_admin, demo_user] (Some 1)
     = ([demo_admin, demo_user, sanitizeUser demo_user], Some 2)"
    by (simp add: sanitizeUser_ptr_def sanitizeUser_def)
  from a b c d e
    sanitizing_leaves_the_original [of "[demo_admin, demo_user]" demo_user demo_libs demo_manager
      5000000001 demo_db1 "\<lparr>cred_Email = ''a@example.com'', cred_Password = ''secret1''\<rparr>"]
  show ?thesis
    by simp
qed

section \<open>The guard against role escalation\<close>




end
